theory Spec2Isabelle
  imports Main "HOL-Library.Word"
begin

unbundle bit_operations_syntax

section \<open>The CoreMIDI input port of MuseScore (coremidiinport.cpp)\<close>

text \<open>
  The development follows \<^verbatim>\<open>src/framework/midi/internal/platform/osx/coremidiinport.cpp\<close>.
  The port is a small state object (\<^verbatim>\<open>Core\<close> plus \<^verbatim>\<open>m_deviceID\<close> and \<^verbatim>\<open>m_running\<close>)
  driven by calls of its methods and by two callbacks of the operating system. Every
  method is a function from the state before to the state after, together with the list
  of things it did that are visible outside (log lines, calls of the MIDI service,
  notifications) and its return value. The operating system is a record of functions:
  what each call of the MIDI service answers.
\<close>

subsection \<open>Numbers as text\<close>

text \<open>\<^verbatim>\<open>std::to_string\<close> and \<^verbatim>\<open>operator<<\<close> on an unsigned number: its decimal digits.\<close>

definition digit_char :: "nat \<Rightarrow> char" where
  "digit_char d = ''0123456789'' ! (d mod 10)"

function to_string :: "nat \<Rightarrow> string" where
  "to_string n = (if n < 10 then [digit_char n] else to_string (n div 10) @ [digit_char n])"
  by pat_completeness auto
termination
  by (relation "measure id") auto

definition int_to_string :: "int \<Rightarrow> string" where
  "int_to_string i = (if i < 0 then CHR ''-'' # to_string (nat (- i)) else to_string (nat i))"

subsection \<open>The packet callbacks\<close>

text \<open>
  \<^verbatim>\<open>MIDIEventPacket\<close> (MIDI 2.0, counted in 32-bit words) and \<^verbatim>\<open>MIDIPacket\<close> (MIDI 1.0,
  counted in bytes), with the fields the callbacks read. A \<^verbatim>\<open>MIDIEventList\<close> or
  \<^verbatim>\<open>MIDIPacketList\<close> is the list of its \<^verbatim>\<open>numPackets\<close> packets, which the source walks
  with \<^verbatim>\<open>MIDIEventPacketNext\<close> and \<^verbatim>\<open>MIDIPacketNext\<close>.
\<close>

record MIDIEventPacket =
  timeStamp :: "64 word"
  wordCount :: "32 word"
  words :: "32 word list"

record MIDIPacket =
  pkt_timeStamp :: "64 word"
  pkt_length :: "16 word"
  pkt_data :: "8 word list"

text \<open>
  The class \<^verbatim>\<open>Event\<close> and the type \<^verbatim>\<open>tick_t\<close> are declared in \<^verbatim>\<open>miditypes.h\<close>, which is
  not among the files examined. The callbacks use four members of \<^verbatim>\<open>Event\<close>; they are
  parameters of the model, and so is the width \<open>'t\<close> of \<^verbatim>\<open>tick_t\<close>, to which the 64-bit
  time stamp is cast.
\<close>

record 'e Event_class =
  fromRawData :: "32 word list \<Rightarrow> 64 word \<Rightarrow> 'e"
  fromMIDI10Package :: "32 word \<Rightarrow> 'e"
  toMIDI20 :: "'e \<Rightarrow> 'e"
  operator_bool :: "'e \<Rightarrow> bool"

text \<open>The cast \<^verbatim>\<open>(tick_t)packet->timeStamp\<close>: the low bits of the time stamp.\<close>

definition tick_cast :: "64 word \<Rightarrow> 't::len word" where
  "tick_cast ts = ucast ts"

text \<open>What a callback does that is visible outside: warnings, and the call of
  \<^verbatim>\<open>doEventsRecived\<close> with the batch.\<close>

datatype ('t, 'e) rx_effect =
  RxLOGW string
  | DoEventsRecived "('t \<times> 'e) list"

text \<open>The body of the loop of \<^verbatim>\<open>receiveBlock\<close>, on the vector \<^verbatim>\<open>events\<close> and the log.\<close>

definition receiveBlock_packet ::
  "'e Event_class \<Rightarrow> MIDIEventPacket \<Rightarrow> ('t::len word \<times> 'e) list \<times> ('t word, 'e) rx_effect list
     \<Rightarrow> ('t word \<times> 'e) list \<times> ('t word, 'e) rx_effect list" where
  "receiveBlock_packet E packet s =
     (case s of (events, log) \<Rightarrow>
        if wordCount packet \<noteq> 0 \<and> wordCount packet \<le> 4 then
          (let e = fromRawData E (words packet) (ucast (wordCount packet)) in
           if operator_bool E e then (events @ [(tick_cast (timeStamp packet), e)], log)
           else (events, log))
        else if wordCount packet > 4 then
          (events, log @ [RxLOGW (''unsupported midi message size ''
                                   @ to_string (unat (wordCount packet)) @ '' bytes'')])
        else (events, log))"

fun receiveBlock_loop ::
  "'e Event_class \<Rightarrow> MIDIEventPacket list \<Rightarrow> ('t::len word \<times> 'e) list \<times> ('t word, 'e) rx_effect list
     \<Rightarrow> ('t word \<times> 'e) list \<times> ('t word, 'e) rx_effect list" where
  "receiveBlock_loop E [] s = s"
| "receiveBlock_loop E (packet # rest) s = receiveBlock_loop E rest (receiveBlock_packet E packet s)"

definition receiveBlock :: "'e Event_class \<Rightarrow> MIDIEventPacket list \<Rightarrow> ('t::len word, 'e) rx_effect list" where
  "receiveBlock E eventList =
     (case receiveBlock_loop E eventList ([], []) of
        (events, log) \<Rightarrow> log @ [DoEventsRecived events])"

text \<open>
  \<^verbatim>\<open>memcpy(&message, packet->data, std::min(sizeof(message), sizeof(char) * packet->length))\<close>
  into a zeroed \<^verbatim>\<open>uint32_t\<close>: on the little-endian machines CoreMIDI runs on, the first
  byte copied is the least significant one.
\<close>

fun le_bytes :: "8 word list \<Rightarrow> 32 word" where
  "le_bytes [] = 0"
| "le_bytes (b # bs) = ucast b OR push_bit 8 (le_bytes bs)"

definition memcpy_message :: "MIDIPacket \<Rightarrow> 32 word" where
  "memcpy_message packet = le_bytes (take (min 4 (unat (pkt_length packet))) (pkt_data packet))"

definition readBlock_packet ::
  "'e Event_class \<Rightarrow> MIDIPacket \<Rightarrow> ('t::len word \<times> 'e) list \<times> ('t word, 'e) rx_effect list
     \<Rightarrow> ('t word \<times> 'e) list \<times> ('t word, 'e) rx_effect list" where
  "readBlock_packet E packet s =
     (case s of (events, log) \<Rightarrow>
        if pkt_length packet \<noteq> 0 \<and> pkt_length packet \<le> 4 then
          (let e = toMIDI20 E (fromMIDI10Package E (memcpy_message packet)) in
           if operator_bool E e then (events @ [(tick_cast (pkt_timeStamp packet), e)], log)
           else (events, log))
        else if pkt_length packet > 4 then
          (events, log @ [RxLOGW (''unsupported midi message size ''
                                   @ to_string (unat (pkt_length packet)) @ '' bytes'')])
        else (events, log))"

fun readBlock_loop ::
  "'e Event_class \<Rightarrow> MIDIPacket list \<Rightarrow> ('t::len word \<times> 'e) list \<times> ('t word, 'e) rx_effect list
     \<Rightarrow> ('t word \<times> 'e) list \<times> ('t word, 'e) rx_effect list" where
  "readBlock_loop E [] s = s"
| "readBlock_loop E (packet # rest) s = readBlock_loop E rest (readBlock_packet E packet s)"

definition readBlock :: "'e Event_class \<Rightarrow> MIDIPacket list \<Rightarrow> ('t::len word, 'e) rx_effect list" where
  "readBlock E packetList =
     (case readBlock_loop E packetList ([], []) of
        (events, log) \<Rightarrow> log @ [DoEventsRecived events])"

text \<open>
  An instance of the four members, to run the callbacks on concrete packets: an event is
  its four data words, a MIDI 1.0 message fills the first of them, and an event whose
  words are all zero converts to \<^verbatim>\<open>false\<close>.
\<close>

definition words_Event :: "(32 word list) Event_class" where
  "words_Event =
     \<lparr> fromRawData = (\<lambda>ws n. take 4 (take (unat n) ws @ [0, 0, 0, 0])),
       fromMIDI10Package = (\<lambda>m. [m, 0, 0, 0]),
       toMIDI20 = (\<lambda>e. e),
       operator_bool = (\<lambda>e. e \<noteq> [0, 0, 0, 0]) \<rparr>"

subsection \<open>The MIDI service of the operating system\<close>

text \<open>
  \<^verbatim>\<open>OSStatus\<close> is a signed 32-bit number, \<^verbatim>\<open>noErr\<close> is 0 and \<^verbatim>\<open>kMIDINoConnection\<close> is
  -10833 (MIDIServices.h). The object references (\<^verbatim>\<open>MIDIClientRef\<close>, \<^verbatim>\<open>MIDIPortRef\<close>,
  \<^verbatim>\<open>MIDIEndpointRef\<close>, \<^verbatim>\<open>MIDIObjectRef\<close>) are \<^verbatim>\<open>UInt32\<close>, an \<^verbatim>\<open>ItemCount\<close> is an
  \<^verbatim>\<open>unsigned long\<close> of 64 bits.
\<close>

type_synonym OSStatus = int

definition noErr :: OSStatus where
  "noErr = 0"

definition kMIDINoConnection :: OSStatus where
  "kMIDINoConnection = - 10833"

text \<open>
  What the service answers. A call with an out-parameter answers the status and the value
  left in the out-parameter. \<^verbatim>\<open>MIDIInputPortCreate\<close> stands for
  \<^verbatim>\<open>MIDIInputPortCreateWithProtocol\<close> and \<^verbatim>\<open>MIDIInputPortCreateWithBlock\<close>, of which the
  source calls one. \<^verbatim>\<open>MIDIObjectGetStringProperty\<close> is asked for
  \<^verbatim>\<open>kMIDIPropertyDisplayName\<close> only; the string it answers is the one that
  \<^verbatim>\<open>CFStringGetCString\<close> leaves in \<^verbatim>\<open>name[256]\<close>.
\<close>

record os =
  MIDIClientCreate :: "OSStatus \<times> 32 word"
  MIDIInputPortCreate :: "32 word \<Rightarrow> OSStatus \<times> 32 word"
  MIDIGetNumberOfSources :: "64 word"
  MIDIGetSource :: "64 word \<Rightarrow> 32 word"
  MIDIObjectGetStringProperty :: "32 word \<Rightarrow> OSStatus \<times> string"
  MIDIPortConnectSource :: "32 word \<Rightarrow> 32 word \<Rightarrow> OSStatus"
  MIDIPortDisconnectSource :: "32 word \<Rightarrow> 32 word \<Rightarrow> OSStatus"

subsection \<open>Results\<close>

text \<open>
  The two members of \<^verbatim>\<open>Err\<close> (midierrors.h) that the source uses, and \<^verbatim>\<open>Ret\<close>:
  \<^verbatim>\<open>Ret(true)\<close>, or \<^verbatim>\<open>make_ret\<close> of an error with or without a text.
\<close>

datatype Err = MidiFailedConnect | MidiNotConnected

datatype Ret = Ret_true | make_ret Err "string option"

text \<open>The exceptions of \<^verbatim>\<open>std::stoi\<close>. A method returns a value or leaves by an exception.\<close>

datatype exn = invalid_argument | out_of_range

datatype 'a outcome = Returned 'a | Thrown exn

text \<open>
  \<^verbatim>\<open>std::stoi(str)\<close> of the C++ standard library, base 10: it skips leading white space,
  reads an optional sign and then the longest run of decimal digits, and ignores what
  follows. With no digit it throws \<^verbatim>\<open>std::invalid_argument\<close>; with a value outside
  \<^verbatim>\<open>int\<close> it throws \<^verbatim>\<open>std::out_of_range\<close>.
\<close>

definition isspace :: "char \<Rightarrow> bool" where
  "isspace c = (c \<in> set [CHR '' '', CHR 0x09, CHR 0x0A, CHR 0x0B, CHR 0x0C, CHR 0x0D])"

definition isdigit :: "char \<Rightarrow> bool" where
  "isdigit c = (c \<in> set ''0123456789'')"

definition digit_value :: "char \<Rightarrow> int" where
  "digit_value c = int (of_char c) - 48"

definition digits_value :: "string \<Rightarrow> int" where
  "digits_value ds = foldl (\<lambda>acc c. 10 * acc + digit_value c) 0 ds"

definition stoi :: "string \<Rightarrow> exn + int" where
  "stoi str =
     (let s1 = dropWhile isspace str;
          neg = (s1 \<noteq> [] \<and> hd s1 = CHR ''-'');
          s2 = (if s1 \<noteq> [] \<and> (hd s1 = CHR ''-'' \<or> hd s1 = CHR ''+'') then tl s1 else s1);
          ds = takeWhile isdigit s2;
          v = (if neg then - digits_value ds else digits_value ds)
      in if ds = [] then Inl invalid_argument
         else if v < - (2 ^ 31) \<or> 2 ^ 31 - 1 < v then Inl out_of_range
         else Inr v)"

subsection \<open>The port\<close>

record Core =
  client :: "32 word"
  inputPort :: "32 word"
  sourceId :: "32 word"
  deviceID :: int

record CoreMidiInPort =
  m_core :: Core
  m_deviceID :: string
  m_running :: bool

text \<open>
  What a method does that is visible outside, in the order in which it does it. A log
  line is the text of the pieces streamed to \<^verbatim>\<open>LOGE()\<close>, \<^verbatim>\<open>LOGW()\<close> or \<^verbatim>\<open>LOGI()\<close>.
  \<^verbatim>\<open>devicesChanged().notify()\<close> tells the observers while the callback is still running:
  the effect carries the port as it is at the moment of the call, which is what an
  observer that asks \<^verbatim>\<open>isConnected()\<close> or \<^verbatim>\<open>deviceID()\<close> then finds.
\<close>

datatype effect =
  LOGE string
  | LOGW string
  | LOGI string
  | Call_MIDIGetSource "64 word"
  | Call_MIDIObjectGetStringProperty "32 word"
  | Call_MIDIPortConnectSource "32 word" "32 word"
  | Call_MIDIPortDisconnectSource "32 word" "32 word"
  | devicesChanged_notify CoreMidiInPort

text \<open>
  Modelled from the spec: the members \<^verbatim>\<open>m_deviceID\<close> and \<^verbatim>\<open>m_running\<close> are declared in
  coremidiinport.h, which is not among the files examined; after construction the device
  identifier is empty and the port is not running. \<^verbatim>\<open>Core\<close> starts with the initialisers
  of the source.
\<close>

definition CoreMidiInPort_new :: CoreMidiInPort where
  "CoreMidiInPort_new =
     \<lparr> m_core = \<lparr> client = 0, inputPort = 0, sourceId = 0, deviceID = - 1 \<rparr>,
       m_deviceID = [], m_running = False \<rparr>"

definition isConnected :: "CoreMidiInPort \<Rightarrow> bool" where
  "isConnected st = (sourceId (m_core st) \<noteq> 0 \<and> m_deviceID st \<noteq> [])"

definition stop :: "os \<Rightarrow> CoreMidiInPort \<Rightarrow> CoreMidiInPort \<times> effect list" where
  "stop os st =
     (if \<not> isConnected st then (st, [LOGE ''midi port is not connected''])
      else
        (let result = MIDIPortDisconnectSource os (inputPort (m_core st)) (sourceId (m_core st));
             called = Call_MIDIPortDisconnectSource (inputPort (m_core st)) (sourceId (m_core st))
         in (st\<lparr>m_running := False\<rparr>,
             called #
             (if result = kMIDINoConnection then [LOGI (''wasn'' @ [CHR 0x27] @ ''t started'')]
              else if result = noErr then []
              else [LOGE (''can'' @ [CHR 0x27] @ ''t disconnect midi port '' @ int_to_string result)]))))"

definition disconnect :: "os \<Rightarrow> CoreMidiInPort \<Rightarrow> CoreMidiInPort \<times> effect list" where
  "disconnect os st =
     (if \<not> isConnected st then (st, [])
      else
        (case stop os st of (st1, done1) \<Rightarrow>
           (st1\<lparr>m_core := (m_core st1)\<lparr>sourceId := 0\<rparr>, m_deviceID := []\<rparr>, done1)))"

definition run :: "os \<Rightarrow> CoreMidiInPort \<Rightarrow> CoreMidiInPort \<times> effect list \<times> Ret" where
  "run os st =
     (if \<not> isConnected st then (st, [], make_ret MidiNotConnected None)
      else
        (let result = MIDIPortConnectSource os (inputPort (m_core st)) (sourceId (m_core st));
             called = Call_MIDIPortConnectSource (inputPort (m_core st)) (sourceId (m_core st))
         in if result = noErr then (st\<lparr>m_running := True\<rparr>, [called], Ret_true)
            else (st\<lparr>m_running := False\<rparr>, [called], make_ret MidiFailedConnect None)))"

text \<open>
  \<^verbatim>\<open>connect\<close>. The \<^verbatim>\<open>int\<close> that \<^verbatim>\<open>std::stoi\<close> returns is converted to the \<^verbatim>\<open>ItemCount\<close>
  that \<^verbatim>\<open>MIDIGetSource\<close> takes: a negative index becomes a large one. An exception of
  \<^verbatim>\<open>std::stoi\<close> is not caught in \<^verbatim>\<open>connect\<close>; it leaves the port as it is at that point.
\<close>

definition connect ::
  "os \<Rightarrow> CoreMidiInPort \<Rightarrow> string \<Rightarrow> CoreMidiInPort \<times> effect list \<times> Ret outcome" where
  "connect os st deviceID' =
     (case (if isConnected st then disconnect os st else (st, [])) of (st1, done1) \<Rightarrow>
        if client (m_core st1) = 0 then
          (st1, done1, Returned (make_ret MidiFailedConnect (Some ''failed create client'')))
        else if inputPort (m_core st1) = 0 then
          (st1, done1, Returned (make_ret MidiFailedConnect (Some ''failed create port'')))
        else
          (case stoi deviceID' of
             Inl x \<Rightarrow> (st1, done1, Thrown x)
           | Inr n \<Rightarrow>
               (let index = (word_of_int n :: 64 word);
                    st2 = st1\<lparr>m_core := (m_core st1)\<lparr>deviceID := n, sourceId := MIDIGetSource os index\<rparr>\<rparr>;
                    done2 = done1 @ [Call_MIDIGetSource index]
                in if sourceId (m_core st2) = 0 then
                     (st2, done2, Returned (make_ret MidiFailedConnect (Some ''failed get source'')))
                   else
                     (case run os (st2\<lparr>m_deviceID := deviceID'\<rparr>) of
                        (st3, done3, ret) \<Rightarrow> (st3, done2 @ done3, Returned ret)))))"

subsection \<open>Initialisation\<close>

text \<open>
  \<^verbatim>\<open>initCore\<close> creates the client and then the input port. \<^verbatim>\<open>IF_ASSERT_FAILED\<close> (log.h, not
  among the files examined) is taken as the source uses it: its block runs when the
  condition does not hold.
\<close>

definition initCore :: "os \<Rightarrow> CoreMidiInPort \<Rightarrow> CoreMidiInPort \<times> effect list" where
  "initCore os st =
     (case MIDIClientCreate os of (result, outClient) \<Rightarrow>
        (let st1 = st\<lparr>m_core := (m_core st)\<lparr>client := outClient\<rparr>\<rparr>
         in if result \<noteq> noErr then (st1, [LOGE ''failed create midi input client''])
            else
              (case MIDIInputPortCreate os (client (m_core st1)) of (result2, outPort) \<Rightarrow>
                 (let st2 = st1\<lparr>m_core := (m_core st1)\<lparr>inputPort := outPort\<rparr>\<rparr>
                  in if result2 \<noteq> noErr then (st2, [LOGE ''failed create midi input port''])
                     else (st2, [])))))"

subsection \<open>The notification callback\<close>

text \<open>
  \<^verbatim>\<open>MIDINotificationMessageID\<close> and \<^verbatim>\<open>MIDIObjectType\<close> (MIDIServices.h). A notification is
  read through three structs that share their first two fields; the record has the fields
  that the callback reads. Both \<^verbatim>\<open>MIDIObjectAddRemoveNotification\<close> and
  \<^verbatim>\<open>MIDIObjectPropertyChangeNotification\<close> take 24 bytes.
\<close>

datatype MIDINotificationMessageID =
  kMIDIMsgSetupChanged
  | kMIDIMsgObjectAdded
  | kMIDIMsgObjectRemoved
  | kMIDIMsgPropertyChanged
  | kMIDIMsgThruConnectionsChanged
  | kMIDIMsgSerialPortOwnerChanged
  | kMIDIMsgIOError
  | kMIDIMsg_unlisted int

datatype MIDIObjectType =
  kMIDIObjectType_Other
  | kMIDIObjectType_Device
  | kMIDIObjectType_Entity
  | kMIDIObjectType_Source
  | kMIDIObjectType_Destination
  | kMIDIObjectType_ExternalDevice
  | kMIDIObjectType_ExternalEntity
  | kMIDIObjectType_ExternalSource
  | kMIDIObjectType_ExternalDestination

record MIDINotification =
  messageID :: MIDINotificationMessageID
  messageSize :: "32 word"
  child :: "32 word"
  childType :: MIDIObjectType
  objectType :: MIDIObjectType
  propertyName :: string

definition sizeof_MIDIObjectAddRemoveNotification :: "32 word" where
  "sizeof_MIDIObjectAddRemoveNotification = 24"

definition sizeof_MIDIObjectPropertyChangeNotification :: "32 word" where
  "sizeof_MIDIObjectPropertyChangeNotification = 24"

definition kMIDIPropertyDisplayName :: string where
  "kMIDIPropertyDisplayName = ''displayName''"

definition kMIDIPropertyName :: string where
  "kMIDIPropertyName = ''name''"

text \<open>The case of \<^verbatim>\<open>kMIDIMsgObjectAdded\<close> and \<^verbatim>\<open>kMIDIMsgObjectRemoved\<close>.\<close>

definition onObjectAddedRemoved ::
  "os \<Rightarrow> CoreMidiInPort \<Rightarrow> MIDINotification \<Rightarrow> CoreMidiInPort \<times> effect list" where
  "onObjectAddedRemoved os self notification =
     (if messageSize notification \<noteq> sizeof_MIDIObjectAddRemoveNotification then
        (self, [LOGW ''Received corrupted MIDIObjectAddRemoveNotification''])
      else if childType notification \<noteq> kMIDIObjectType_Source then (self, [])
      else
        (case (if messageID notification = kMIDIMsgObjectRemoved then
                 (if isConnected self \<and> child notification = sourceId (m_core self)
                  then disconnect os self else (self, []))
               else (self, [])) of
           (self1, done1) \<Rightarrow> (self1, done1 @ [devicesChanged_notify self1])))"

text \<open>The case of \<^verbatim>\<open>kMIDIMsgPropertyChanged\<close>.\<close>

definition onPropertyChanged ::
  "CoreMidiInPort \<Rightarrow> MIDINotification \<Rightarrow> CoreMidiInPort \<times> effect list" where
  "onPropertyChanged self notification =
     (if messageSize notification \<noteq> sizeof_MIDIObjectPropertyChangeNotification then
        (self, [LOGW ''Received corrupted MIDIObjectPropertyChangeNotification''])
      else if objectType notification \<noteq> kMIDIObjectType_Device
              \<and> objectType notification \<noteq> kMIDIObjectType_Source then (self, [])
      else if propertyName notification = kMIDIPropertyDisplayName
              \<or> propertyName notification = kMIDIPropertyName then (self, [devicesChanged_notify self])
      else (self, []))"

text \<open>The callback; \<^verbatim>\<open>self\<close> is the port given as \<^verbatim>\<open>refCon\<close>, which is never null.\<close>

definition onCoreMidiNotificationReceived ::
  "os \<Rightarrow> CoreMidiInPort \<Rightarrow> MIDINotification \<Rightarrow> CoreMidiInPort \<times> effect list" where
  "onCoreMidiNotificationReceived os self notification =
     (case messageID notification of
        kMIDIMsgObjectAdded \<Rightarrow> onObjectAddedRemoved os self notification
      | kMIDIMsgObjectRemoved \<Rightarrow> onObjectAddedRemoved os self notification
      | kMIDIMsgPropertyChanged \<Rightarrow> onPropertyChanged self notification
      | _ \<Rightarrow> (self, []))"

subsection \<open>The list of devices\<close>

record MidiDevice =
  dev_id :: string
  dev_name :: string

text \<open>The body of the loop of \<^verbatim>\<open>devices\<close>, on the list \<^verbatim>\<open>ret\<close> and what has been done.\<close>

definition devices_source ::
  "os \<Rightarrow> 64 word \<Rightarrow> MidiDevice list \<times> effect list \<Rightarrow> MidiDevice list \<times> effect list" where
  "devices_source os sourceIndex s =
     (case s of (ret, done0) \<Rightarrow>
        (let sourceRef = MIDIGetSource os sourceIndex;
             done1 = done0 @ [Call_MIDIGetSource sourceIndex]
         in if sourceRef \<noteq> 0 then
              (case MIDIObjectGetStringProperty os sourceRef of (status, name) \<Rightarrow>
                 if status \<noteq> noErr then
                   (ret, done1 @ [Call_MIDIObjectGetStringProperty sourceRef,
                                  LOGE (''Can'' @ [CHR 0x27] @ ''t get property kMIDIPropertyDisplayName'')])
                 else
                   (ret @ [\<lparr> dev_id = to_string (unat sourceIndex), dev_name = name \<rparr>],
                    done1 @ [Call_MIDIObjectGetStringProperty sourceRef]))
            else (ret, done1)))"

text \<open>
  \<^verbatim>\<open>for (ItemCount sourceIndex = 0; sourceIndex <= sources; sourceIndex++)\<close>: the index is
  an unsigned 64-bit number, and incrementing the largest one gives 0. The loop is a
  partial function: \<open>None\<close> is a loop that does not end.
\<close>

partial_function (option) devices_loop ::
  "os \<Rightarrow> 64 word \<Rightarrow> 64 word \<Rightarrow> MidiDevice list \<times> effect list \<Rightarrow> (MidiDevice list \<times> effect list) option" where
  "devices_loop os sources sourceIndex s =
     (if sourceIndex \<le> sources
      then devices_loop os sources (sourceIndex + 1) (devices_source os sourceIndex s)
      else Some s)"

declare devices_loop.simps [code]

definition devices :: "os \<Rightarrow> (MidiDevice list \<times> effect list) option" where
  "devices os = devices_loop os (MIDIGetNumberOfSources os) 0 ([], [])"

subsection \<open>The states a port can be in\<close>

text \<open>
  A port is constructed and then driven by its methods and by the notification callback;
  the operating system may answer differently at each call.
\<close>

inductive reachable :: "CoreMidiInPort \<Rightarrow> bool" where
  reach_new: "reachable CoreMidiInPort_new"
| reach_initCore: "reachable st \<Longrightarrow> reachable (fst (initCore os st))"
| reach_connect: "reachable st \<Longrightarrow> reachable (fst (connect os st deviceID'))"
| reach_disconnect: "reachable st \<Longrightarrow> reachable (fst (disconnect os st))"
| reach_run: "reachable st \<Longrightarrow> reachable (fst (run os st))"
| reach_stop: "reachable st \<Longrightarrow> reachable (fst (stop os st))"
| reach_notification: "reachable st \<Longrightarrow> reachable (fst (onCoreMidiNotificationReceived os st notification))"

text \<open>The invariant of the connection: a running port has a source and a device identifier.\<close>

definition connection_inv :: "CoreMidiInPort \<Rightarrow> bool" where
  "connection_inv st = (m_running st \<longrightarrow> sourceId (m_core st) \<noteq> 0 \<and> m_deviceID st \<noteq> [])"

text \<open>An operating system with the given table of sources, where every call succeeds.\<close>

definition os_with_sources :: "(32 word \<times> string) list \<Rightarrow> os" where
  "os_with_sources table =
     \<lparr> MIDIClientCreate = (noErr, 1),
       MIDIInputPortCreate = (\<lambda>c. (noErr, 2)),
       MIDIGetNumberOfSources = word_of_nat (length table),
       MIDIGetSource = (\<lambda>i. if unat i < length table then fst (table ! unat i) else 0),
       MIDIObjectGetStringProperty =
         (\<lambda>r. case map_of table r of Some name \<Rightarrow> (noErr, name) | None \<Rightarrow> (- 10835, [])),
       MIDIPortConnectSource = (\<lambda>p s. noErr),
       MIDIPortDisconnectSource = (\<lambda>p s. noErr) \<rparr>"

subsection \<open>What the receive callback is meant to do, packet by packet\<close>

text \<open>
  The events that one packet contributes to the batch: one event, stamped with the time
  stamp of the packet, when the count is between 1 and 4 and the decoded event converts
  to \<^verbatim>\<open>true\<close>; none otherwise.
\<close>

definition decoded :: "'e Event_class \<Rightarrow> MIDIEventPacket \<Rightarrow> ('t::len word \<times> 'e) list" where
  "decoded E packet =
     (if unat (wordCount packet) \<in> {1..4}
         \<and> operator_bool E (fromRawData E (words packet) (ucast (wordCount packet)))
      then [(tick_cast (timeStamp packet), fromRawData E (words packet) (ucast (wordCount packet)))]
      else [])"

text \<open>The warnings that one packet causes: one when its count is above 4, none otherwise.\<close>

definition warned :: "MIDIEventPacket \<Rightarrow> ('t::len word, 'e) rx_effect list" where
  "warned packet =
     (if 4 < unat (wordCount packet)
      then [RxLOGW (''unsupported midi message size '' @ to_string (unat (wordCount packet)) @ '' bytes'')]
      else [])"

subsection \<open>Reading results and traces\<close>

text \<open>The start of \<^verbatim>\<open>connect\<close>: the port is disconnected if it was connected.\<close>

definition connect_start :: "os \<Rightarrow> CoreMidiInPort \<Rightarrow> CoreMidiInPort \<times> effect list" where
  "connect_start os st = (if isConnected st then disconnect os st else (st, []))"


text \<open>The class of the error that a call returned, if it returned one.\<close>

fun error_class :: "Ret outcome \<Rightarrow> Err option" where
  "error_class (Returned (make_ret e txt)) = Some e"
| "error_class (Returned Ret_true) = None"
| "error_class (Thrown x) = None"

text \<open>The indices that were given to \<^verbatim>\<open>MIDIGetSource\<close>, in the order of the calls.\<close>

fun source_queries :: "effect list \<Rightarrow> 64 word list" where
  "source_queries [] = []"
| "source_queries (Call_MIDIGetSource i # rest) = i # source_queries rest"
| "source_queries (other # rest) = source_queries rest"

text \<open>
  The port as the observers find it at each devices-changed notification, in the order of
  the notifications.
\<close>

fun notified :: "effect list \<Rightarrow> CoreMidiInPort list" where
  "notified [] = []"
| "notified (devicesChanged_notify seen # rest) = seen # notified rest"
| "notified (other # rest) = notified rest"

text \<open>The error lines among the things done.\<close>

fun errors_logged :: "effect list \<Rightarrow> string list" where
  "errors_logged [] = []"
| "errors_logged (LOGE msg # rest) = msg # errors_logged rest"
| "errors_logged (other # rest) = errors_logged rest"

subsection \<open>A machine with two keyboards\<close>

definition keyboards :: os where
  "keyboards = os_with_sources [(11, ''Keyboard A''), (12, ''Keyboard B'')]"

text \<open>The same machine when the service refuses to create the client.\<close>

definition keyboards_no_client :: os where
  "keyboards_no_client = keyboards\<lparr>MIDIClientCreate := (- 50, 0)\<rparr>"

text \<open>The same machine when the service refuses to bind the port to a source.\<close>

definition keyboards_no_bind :: os where
  "keyboards_no_bind = keyboards\<lparr>MIDIPortConnectSource := (\<lambda>p s. - 50)\<rparr>"

text \<open>The port after \<^verbatim>\<open>init\<close>, and after \<^verbatim>\<open>connect("1")\<close> on that machine.\<close>

definition port_ready :: CoreMidiInPort where
  "port_ready =
     \<lparr> m_core = \<lparr> client = 1, inputPort = 2, sourceId = 0, deviceID = - 1 \<rparr>,
       m_deviceID = [], m_running = False \<rparr>"

definition port_on_B :: CoreMidiInPort where
  "port_on_B =
     \<lparr> m_core = \<lparr> client = 1, inputPort = 2, sourceId = 12, deviceID = 1 \<rparr>,
       m_deviceID = ''1'', m_running = True \<rparr>"

text \<open>The notification that the source behind \<^verbatim>\<open>"1"\<close> was removed.\<close>

definition removed_B :: MIDINotification where
  "removed_B =
     \<lparr> messageID = kMIDIMsgObjectRemoved, messageSize = 24, child = 12,
       childType = kMIDIObjectType_Source, objectType = kMIDIObjectType_Other,
       propertyName = [] \<rparr>"

section \<open>Properties\<close>

subsection \<open>Decoding packets\<close>

lemma to_string_6: "to_string 6 = ''6''"
  by code_simp

lemma count_in_range32: "(w \<noteq> 0 \<and> w \<le> 4) = (unat w \<in> {1..4})" for w :: "32 word"
  by (auto simp: word_le_nat_alt unat_eq_zero Suc_le_eq unat_gt_0)

lemma count_in_range16: "(w \<noteq> 0 \<and> w \<le> 4) = (unat w \<in> {1..4})" for w :: "16 word"
  by (auto simp: word_le_nat_alt unat_eq_zero Suc_le_eq unat_gt_0)

lemma count_too_large: "(4 < w) = (4 < unat w)" for w :: "32 word"
  by (simp add: word_less_nat_alt)

lemma receiveBlock_packet_eq:
  "receiveBlock_packet E packet (events, log) = (events @ decoded E packet, log @ warned packet)"
  unfolding receiveBlock_packet_def decoded_def warned_def count_in_range32 count_too_large
  by (auto simp: Let_def)

lemma receiveBlock_loop_eq:
  "receiveBlock_loop E eventList (events, log) =
     (events @ concat (map (decoded E) eventList), log @ concat (map warned eventList))"
  by (induction eventList arbitrary: events log) (simp_all add: receiveBlock_packet_eq)

lemma receiveBlock_eq:
  "receiveBlock E eventList =
     concat (map warned eventList) @ [DoEventsRecived (concat (map (decoded E) eventList))]"
  by (simp add: receiveBlock_def receiveBlock_loop_eq)

text \<open>
  C1, as the code has it. A packet whose count is in 1..4 is decoded into one event; the
  event is added to the batch if it converts to \<^verbatim>\<open>true\<close> and dropped if not, so the packet
  gives at most one event and never a warning. This holds on the MIDI 2.0 path (counted
  in words) and on the MIDI 1.0 path (counted in bytes). The event is paired with the time
  stamp of the packet cast to \<^verbatim>\<open>tick_t\<close>, that is, reduced modulo two to the width of
  \<^verbatim>\<open>tick_t\<close>.
\<close>

theorem packet_in_range_decodes_to_valid_event:
  fixes E :: "'e Event_class" and events :: "('t::len word \<times> 'e) list"
  assumes "unat (wordCount packet) \<in> {1..4}" and "unat (pkt_length packet10) \<in> {1..4}"
  shows "receiveBlock_packet E packet (events, log) =
           (events @ (if operator_bool E (fromRawData E (words packet) (ucast (wordCount packet)))
                      then [(tick_cast (timeStamp packet),
                             fromRawData E (words packet) (ucast (wordCount packet)))]
                      else []), log)
       \<and> readBlock_packet E packet10 (events, log) =
           (events @ (if operator_bool E (toMIDI20 E (fromMIDI10Package E (memcpy_message packet10)))
                      then [(tick_cast (pkt_timeStamp packet10),
                             toMIDI20 E (fromMIDI10Package E (memcpy_message packet10)))]
                      else []), log)
       \<and> unat (tick_cast (timeStamp packet) :: 't word) = unat (timeStamp packet) mod 2 ^ LENGTH('t)"
proof (intro conjI)
  from assms(1) have "wordCount packet \<noteq> 0 \<and> wordCount packet \<le> 4"
    by (simp only: count_in_range32)
  then show "receiveBlock_packet E packet (events, log) =
           (events @ (if operator_bool E (fromRawData E (words packet) (ucast (wordCount packet)))
                      then [(tick_cast (timeStamp packet),
                             fromRawData E (words packet) (ucast (wordCount packet)))]
                      else []), log)"
    by (simp add: receiveBlock_packet_def Let_def)
next
  from assms(2) have "pkt_length packet10 \<noteq> 0 \<and> pkt_length packet10 \<le> 4"
    by (simp only: count_in_range16)
  then show "readBlock_packet E packet10 (events, log) =
           (events @ (if operator_bool E (toMIDI20 E (fromMIDI10Package E (memcpy_message packet10)))
                      then [(tick_cast (pkt_timeStamp packet10),
                             toMIDI20 E (fromMIDI10Package E (memcpy_message packet10)))]
                      else []), log)"
    by (simp add: readBlock_packet_def Let_def)
next
  show "unat (tick_cast (timeStamp packet) :: 't word) = unat (timeStamp packet) mod 2 ^ LENGTH('t)"
    by (simp add: tick_cast_def unsigned_ucast_eq take_bit_eq_mod)
qed

theorem packet_in_range_decodes_to_valid_event_witness:
  "unat (wordCount \<lparr>timeStamp = 1000, wordCount = 2, words = [0x20903C40, 0]\<rparr>) \<in> {1..4}
   \<and> unat (pkt_length \<lparr>pkt_timeStamp = 1000, pkt_length = 3, pkt_data = [0x90, 0x3C, 0x40]\<rparr>) \<in> {1..4}
   \<and> receiveBlock_packet words_Event \<lparr>timeStamp = 1000, wordCount = 2, words = [0x20903C40, 0]\<rparr>
        ([], []) = ([(1000 :: 64 word, [0x20903C40, 0, 0, 0])], [])
   \<and> readBlock_packet words_Event \<lparr>pkt_timeStamp = 1000, pkt_length = 3, pkt_data = [0x90, 0x3C, 0x40]\<rparr>
        ([], []) = ([(1000 :: 64 word, [0x403C90, 0, 0, 0])], [])"
  using packet_in_range_decodes_to_valid_event
    [of "\<lparr>timeStamp = 1000, wordCount = 2, words = [0x20903C40, 0]\<rparr>"
        "\<lparr>pkt_timeStamp = 1000, pkt_length = 3, pkt_data = [0x90, 0x3C, 0x40]\<rparr>"
        words_Event "[] :: (64 word \<times> 32 word list) list" "[]"]
  by (simp add: words_Event_def tick_cast_def memcpy_message_def)

text \<open>
  C1 as stated fails: a packet of one word whose event converts to \<^verbatim>\<open>false\<close> gives no
  event.
\<close>

theorem packet_in_range_without_event:
  "unat (wordCount \<lparr>timeStamp = 1000, wordCount = 1, words = [0]\<rparr>) \<in> {1..4}
   \<and> length (fst (receiveBlock_packet words_Event \<lparr>timeStamp = 1000, wordCount = 1, words = [0]\<rparr>
                    ([] :: (64 word \<times> 32 word list) list, []))) \<noteq> 1"
  by (simp add: receiveBlock_packet_def words_Event_def)

text \<open>
  C2, as the code has it. The callback logs one warning for each packet whose count is
  above 4, in packet order, and then calls \<^verbatim>\<open>doEventsRecived\<close> once, with the events of
  all packets in packet order; a packet of count 0 gives neither an event nor a warning.
  A batch of three packets of sizes 2, 0 and 6 gives one warning and one call with at most
  one event: exactly one if the event of the first packet converts to \<^verbatim>\<open>true\<close>.
\<close>

theorem receiveBlock_warns_and_delivers_one_batch:
  fixes E :: "'e Event_class"
  shows "(receiveBlock E eventList :: ('t::len word, 'e) rx_effect list) =
           concat (map warned eventList) @ [DoEventsRecived (concat (map (decoded E) eventList))]
       \<and> (\<forall>packet. wordCount packet = 0 \<longrightarrow>
             (decoded E packet :: ('t word \<times> 'e) list) = []
             \<and> (warned packet :: ('t word, 'e) rx_effect list) = [])
       \<and> (map (\<lambda>packet. unat (wordCount packet)) eventList = [2, 0, 6] \<longrightarrow>
             (\<exists>events. (receiveBlock E eventList :: ('t word, 'e) rx_effect list) =
                          [RxLOGW ''unsupported midi message size 6 bytes'', DoEventsRecived events]
                      \<and> length events \<le> 1
                      \<and> (length events = 1) =
                          operator_bool E (fromRawData E (words (hd eventList)) 2)))"
proof (intro conjI allI impI)
  show "(receiveBlock E eventList :: ('t word, 'e) rx_effect list) =
           concat (map warned eventList) @ [DoEventsRecived (concat (map (decoded E) eventList))]"
    by (rule receiveBlock_eq)
next
  fix packet :: MIDIEventPacket
  assume "wordCount packet = 0"
  then show "(decoded E packet :: ('t word \<times> 'e) list) = []"
    by (simp add: decoded_def)
next
  fix packet :: MIDIEventPacket
  assume "wordCount packet = 0"
  then show "(warned packet :: ('t word, 'e) rx_effect list) = []"
    by (simp add: warned_def)
next
  assume sizes: "map (\<lambda>packet. unat (wordCount packet)) eventList = [2, 0, 6]"
  then obtain p1 p2 p3 where batch: "eventList = [p1, p2, p3]"
    and c1: "unat (wordCount p1) = 2" and c2: "unat (wordCount p2) = 0"
    and c3: "unat (wordCount p3) = 6"
    by auto
  from c1 have "unat (wordCount p1) = unat (2 :: 32 word)"
    by simp
  then have w1: "wordCount p1 = 2"
    by (simp only: word_unat_eq_iff)
  note six = to_string_6
  show "\<exists>events. (receiveBlock E eventList :: ('t word, 'e) rx_effect list) =
                   [RxLOGW ''unsupported midi message size 6 bytes'', DoEventsRecived events]
               \<and> length events \<le> 1
               \<and> (length events = 1) = operator_bool E (fromRawData E (words (hd eventList)) 2)"
    by (rule exI [of _ "decoded E p1"])
       (simp add: receiveBlock_eq batch warned_def decoded_def c1 c2 c3 w1 six del: to_string.simps)
qed

theorem receiveBlock_warns_and_delivers_one_batch_witness:
  "map (\<lambda>packet. unat (wordCount packet))
     [\<lparr>timeStamp = 1000, wordCount = 2, words = [0x20903C40, 0]\<rparr>,
      \<lparr>timeStamp = 1001, wordCount = 0, words = []\<rparr>,
      \<lparr>timeStamp = 1002, wordCount = 6, words = [1, 2, 3, 4, 5, 6]\<rparr>] = [2, 0, 6]
   \<and> (receiveBlock words_Event
        [\<lparr>timeStamp = 1000, wordCount = 2, words = [0x20903C40, 0]\<rparr>,
         \<lparr>timeStamp = 1001, wordCount = 0, words = []\<rparr>,
         \<lparr>timeStamp = 1002, wordCount = 6, words = [1, 2, 3, 4, 5, 6]\<rparr>]
        :: (64 word, 32 word list) rx_effect list) =
       [RxLOGW ''unsupported midi message size 6 bytes'',
        DoEventsRecived [(1000, [0x20903C40, 0, 0, 0])]]"
  using receiveBlock_warns_and_delivers_one_batch
    [of words_Event
        "[\<lparr>timeStamp = 1000, wordCount = 2, words = [0x20903C40, 0]\<rparr>,
          \<lparr>timeStamp = 1001, wordCount = 0, words = []\<rparr>,
          \<lparr>timeStamp = 1002, wordCount = 6, words = [1, 2, 3, 4, 5, 6]\<rparr>]",
     where ?'t = 64]
  by (simp add: words_Event_def tick_cast_def decoded_def warned_def to_string_6 del: to_string.simps)

text \<open>
  C2 as stated fails: of three packets of sizes 2, 0 and 6, the first one carrying an event
  that converts to \<^verbatim>\<open>false\<close>, no event is delivered.
\<close>

theorem batch_2_0_6_without_event:
  "(receiveBlock words_Event
      [\<lparr>timeStamp = 1000, wordCount = 2, words = [0, 0]\<rparr>,
       \<lparr>timeStamp = 1001, wordCount = 0, words = []\<rparr>,
       \<lparr>timeStamp = 1002, wordCount = 6, words = [1, 2, 3, 4, 5, 6]\<rparr>]
      :: (64 word, 32 word list) rx_effect list) =
     [RxLOGW ''unsupported midi message size 6 bytes'', DoEventsRecived []]"
  by (simp add: receiveBlock_def receiveBlock_packet_def words_Event_def to_string_6 del: to_string.simps)

subsection \<open>The connection\<close>

lemma stoi_1: "stoi ''1'' = Inr 1"
  by code_simp

lemma stoi_0: "stoi ''0'' = Inr 0"
  by code_simp

lemma stoi_99: "stoi ''99'' = Inr 99"
  by code_simp

lemma stoi_abc: "stoi ''abc'' = Inl invalid_argument"
  by code_simp

lemma port_ready_reached: "fst (initCore keyboards CoreMidiInPort_new) = port_ready"
  by (simp add: initCore_def keyboards_def os_with_sources_def CoreMidiInPort_new_def
      port_ready_def noErr_def)

lemma port_on_B_reached: "fst (connect keyboards port_ready ''1'') = port_on_B"
  by (simp add: connect_def run_def isConnected_def stoi_1 keyboards_def os_with_sources_def
      port_ready_def port_on_B_def noErr_def Let_def)

lemma reachable_port_on_B: "reachable port_on_B"
proof -
  have "reachable port_ready"
    using reach_initCore [OF reach_new, of keyboards] by (simp only: port_ready_reached)
  then have "reachable (fst (connect keyboards port_ready ''1''))"
    by (rule reach_connect)
  then show ?thesis
    by (simp only: port_on_B_reached)
qed

lemma isConnected_port_on_B: "isConnected port_on_B"
  by (simp add: isConnected_def port_on_B_def)

text \<open>What each method does to the fields.\<close>

lemma stop_fields:
  "m_core (fst (stop os st)) = m_core st"
  "m_deviceID (fst (stop os st)) = m_deviceID st"
  "m_running (fst (stop os st)) = (m_running st \<and> \<not> isConnected st)"
  by (simp_all add: stop_def Let_def)

lemma notified_append: "notified (xs @ ys) = notified xs @ notified ys"
  by (induction xs rule: notified.induct) simp_all

lemma stop_no_notify: "notified (snd (stop os st)) = []"
  by (simp add: stop_def Let_def)

lemma disconnect_connected:
  assumes "isConnected st"
  shows "fst (disconnect os st) = st\<lparr>m_core := (m_core st)\<lparr>sourceId := 0\<rparr>, m_deviceID := [], m_running := False\<rparr>"
    and "snd (disconnect os st) = snd (stop os st)"
    and "hd (snd (disconnect os st)) = Call_MIDIPortDisconnectSource (inputPort (m_core st)) (sourceId (m_core st))"
    and "notified (snd (disconnect os st)) = []"
  using assms by (simp_all add: disconnect_def stop_def Let_def split: prod.splits)

lemma disconnect_not_connected: "\<not> isConnected st \<Longrightarrow> disconnect os st = (st, [])"
  by (simp add: disconnect_def)

lemma not_connected_after_disconnect: "\<not> isConnected (fst (disconnect os st))"
  by (cases "isConnected st") (simp_all add: disconnect_connected disconnect_not_connected isConnected_def)

lemma stop_inv: "connection_inv st \<Longrightarrow> connection_inv (fst (stop os st))"
  by (simp add: connection_inv_def stop_fields)

lemma disconnect_inv: "connection_inv st \<Longrightarrow> connection_inv (fst (disconnect os st))"
  by (cases "isConnected st") (simp_all add: disconnect_connected disconnect_not_connected connection_inv_def)

lemma run_inv: "connection_inv st \<Longrightarrow> connection_inv (fst (run os st))"
  by (simp add: run_def connection_inv_def isConnected_def Let_def)

lemma initCore_inv: "connection_inv st \<Longrightarrow> connection_inv (fst (initCore os st))"
  by (simp add: initCore_def connection_inv_def Let_def split: prod.splits)

lemma connect_start_facts:
  "\<not> isConnected (fst (connect_start os st))"
  "connection_inv st \<Longrightarrow> connection_inv (fst (connect_start os st))"
  "connection_inv st \<Longrightarrow> \<not> m_running (fst (connect_start os st))"
  "client (m_core (fst (connect_start os st))) = client (m_core st)"
  "inputPort (m_core (fst (connect_start os st))) = inputPort (m_core st)"
  by (auto simp: connect_start_def not_connected_after_disconnect disconnect_inv
      disconnect_connected connection_inv_def isConnected_def)

lemma connect_unfold:
  "connect os st deviceID' =
     (case connect_start os st of (st1, done1) \<Rightarrow>
        if client (m_core st1) = 0 then
          (st1, done1, Returned (make_ret MidiFailedConnect (Some ''failed create client'')))
        else if inputPort (m_core st1) = 0 then
          (st1, done1, Returned (make_ret MidiFailedConnect (Some ''failed create port'')))
        else
          (case stoi deviceID' of
             Inl x \<Rightarrow> (st1, done1, Thrown x)
           | Inr n \<Rightarrow>
               (let index = (word_of_int n :: 64 word);
                    st2 = st1\<lparr>m_core := (m_core st1)\<lparr>deviceID := n, sourceId := MIDIGetSource os index\<rparr>\<rparr>;
                    done2 = done1 @ [Call_MIDIGetSource index]
                in if sourceId (m_core st2) = 0 then
                     (st2, done2, Returned (make_ret MidiFailedConnect (Some ''failed get source'')))
                   else
                     (case run os (st2\<lparr>m_deviceID := deviceID'\<rparr>) of
                        (st3, done3, ret) \<Rightarrow> (st3, done2 @ done3, Returned ret)))))"
  by (simp only: connect_def connect_start_def)

lemma connect_no_handle:
  assumes "client (m_core st) = 0 \<or> inputPort (m_core st) = 0"
  shows "fst (connect os st deviceID') = fst (connect_start os st)"
    and "fst (snd (connect os st deviceID')) = snd (connect_start os st)"
    and "error_class (snd (snd (connect os st deviceID'))) = Some MidiFailedConnect"
  using assms by (auto simp: connect_unfold case_prod_beta connect_start_facts)

lemma connect_throws:
  assumes "client (m_core st) \<noteq> 0" and "inputPort (m_core st) \<noteq> 0" and "stoi deviceID' = Inl x"
  shows "connect os st deviceID' = (fst (connect_start os st), snd (connect_start os st), Thrown x)"
  using assms by (simp add: connect_unfold case_prod_beta connect_start_facts)

lemma connect_no_source:
  assumes "client (m_core st) \<noteq> 0" and "inputPort (m_core st) \<noteq> 0"
    and "stoi deviceID' = Inr n" and "MIDIGetSource os (word_of_int n) = 0"
  shows "connect os st deviceID' =
           ((fst (connect_start os st))
              \<lparr>m_core := (m_core (fst (connect_start os st)))\<lparr>deviceID := n, sourceId := 0\<rparr>\<rparr>,
            snd (connect_start os st) @ [Call_MIDIGetSource (word_of_int n)],
            Returned (make_ret MidiFailedConnect (Some ''failed get source'')))"
  using assms by (simp add: connect_unfold case_prod_beta connect_start_facts Let_def)

lemma connect_binds:
  assumes "client (m_core st) \<noteq> 0" and "inputPort (m_core st) \<noteq> 0"
    and "stoi deviceID' = Inr n" and "MIDIGetSource os (word_of_int n) \<noteq> 0"
  shows "connect os st deviceID' =
           ((fst (connect_start os st))
              \<lparr>m_core := (m_core (fst (connect_start os st)))
                   \<lparr>deviceID := n, sourceId := MIDIGetSource os (word_of_int n)\<rparr>,
               m_deviceID := deviceID',
               m_running := (MIDIPortConnectSource os (inputPort (m_core st))
                               (MIDIGetSource os (word_of_int n)) = noErr)\<rparr>,
            snd (connect_start os st) @
              [Call_MIDIGetSource (word_of_int n),
               Call_MIDIPortConnectSource (inputPort (m_core st)) (MIDIGetSource os (word_of_int n))],
            Returned (if MIDIPortConnectSource os (inputPort (m_core st))
                           (MIDIGetSource os (word_of_int n)) = noErr
                      then Ret_true else make_ret MidiFailedConnect None))"
proof -
  from assms(3) have "deviceID' \<noteq> []"
    by (auto simp: stoi_def Let_def)
  with assms show ?thesis
    by (simp add: connect_unfold case_prod_beta connect_start_facts Let_def run_def isConnected_def)
qed

lemma connect_inv: "connection_inv st \<Longrightarrow> connection_inv (fst (connect os st deviceID'))"
proof -
  assume inv: "connection_inv st"
  then have idle: "\<not> m_running (fst (connect_start os st))"
    by (rule connect_start_facts)
  show ?thesis
  proof (cases "client (m_core st) = 0 \<or> inputPort (m_core st) = 0")
    case True
    then show ?thesis
      using inv by (simp add: connect_no_handle connect_start_facts)
  next
    case False
    show ?thesis
    proof (cases "stoi deviceID'")
      case (Inl x)
      with False inv show ?thesis
        by (simp add: connect_throws connect_start_facts)
    next
      case (Inr n)
      from Inr have "deviceID' \<noteq> []"
        by (auto simp: stoi_def Let_def)
      with False Inr idle show ?thesis
        by (cases "MIDIGetSource os (word_of_int n) = 0")
           (simp_all add: connect_no_source connect_binds connection_inv_def)
    qed
  qed
qed

lemma notification_inv:
  "connection_inv st \<Longrightarrow> connection_inv (fst (onCoreMidiNotificationReceived os st notification))"
  by (simp add: onCoreMidiNotificationReceived_def onObjectAddedRemoved_def onPropertyChanged_def
      disconnect_inv case_prod_beta split: MIDINotificationMessageID.splits)

lemma connection_inv_new: "connection_inv CoreMidiInPort_new"
  by (simp add: connection_inv_def CoreMidiInPort_new_def)

lemma reachable_inv: "reachable st \<Longrightarrow> connection_inv st"
  by (induction rule: reachable.induct)
     (simp_all add: connection_inv_new initCore_inv connect_inv disconnect_inv run_inv stop_inv
        notification_inv)

text \<open>
  C3, as the code has it. When the client or the input port was not created, its handle is
  null and \<^verbatim>\<open>connect\<close> returns an error of class \<^verbatim>\<open>MidiFailedConnect\<close>, whatever the device
  identifier; so does every \<^verbatim>\<open>connect\<close> on a port whose initialisation failed to create
  the client.
\<close>

theorem connect_without_client_or_port_fails_to_connect:
  "(client (m_core st) = 0 \<or> inputPort (m_core st) = 0 \<longrightarrow>
      error_class (snd (snd (connect os st deviceID'))) = Some MidiFailedConnect)
   \<and> (fst (MIDIClientCreate os0) \<noteq> noErr \<longrightarrow>
      error_class (snd (snd (connect os (fst (initCore os0 CoreMidiInPort_new)) deviceID')))
        = Some MidiFailedConnect)"
proof (intro conjI impI)
  assume "client (m_core st) = 0 \<or> inputPort (m_core st) = 0"
  then show "error_class (snd (snd (connect os st deviceID'))) = Some MidiFailedConnect"
    by (rule connect_no_handle)
next
  assume "fst (MIDIClientCreate os0) \<noteq> noErr"
  then have "inputPort (m_core (fst (initCore os0 CoreMidiInPort_new))) = 0"
    by (simp add: initCore_def CoreMidiInPort_new_def case_prod_beta)
  then show "error_class (snd (snd (connect os (fst (initCore os0 CoreMidiInPort_new)) deviceID')))
        = Some MidiFailedConnect"
    by (simp add: connect_no_handle)
qed

theorem connect_without_client_or_port_fails_to_connect_witness:
  "fst (MIDIClientCreate keyboards_no_client) \<noteq> noErr
   \<and> inputPort (m_core CoreMidiInPort_new) = 0
   \<and> error_class (snd (snd (connect keyboards CoreMidiInPort_new ''0''))) = Some MidiFailedConnect
   \<and> error_class (snd (snd (connect keyboards
        (fst (initCore keyboards_no_client CoreMidiInPort_new)) ''0''))) = Some MidiFailedConnect"
  using connect_without_client_or_port_fails_to_connect
    [of CoreMidiInPort_new keyboards "''0''" keyboards_no_client]
  by (simp add: keyboards_no_client_def keyboards_def os_with_sources_def noErr_def
      CoreMidiInPort_new_def)

text \<open>
  C3 as stated fails: after an initialisation in which the client could not be created,
  \<^verbatim>\<open>connect("0")\<close> returns \<^verbatim>\<open>MidiFailedConnect\<close>, not \<^verbatim>\<open>MidiNotConnected\<close>.
\<close>

theorem connect_after_failed_init_is_not_NotConnected:
  "fst (MIDIClientCreate keyboards_no_client) \<noteq> noErr
   \<and> snd (snd (connect keyboards_no_client
        (fst (initCore keyboards_no_client CoreMidiInPort_new)) ''0''))
       = Returned (make_ret MidiFailedConnect (Some ''failed create client''))
   \<and> error_class (snd (snd (connect keyboards_no_client
        (fst (initCore keyboards_no_client CoreMidiInPort_new)) ''0''))) \<noteq> Some MidiNotConnected"
  by (simp add: keyboards_no_client_def keyboards_def os_with_sources_def noErr_def
      CoreMidiInPort_new_def initCore_def connect_def isConnected_def)

text \<open>
  An identifier that \<^verbatim>\<open>std::stoi\<close> reads as the index \<open>n\<close>, with no source at that index:
  \<^verbatim>\<open>connect\<close> returns an error of class \<^verbatim>\<open>MidiFailedConnect\<close> and the port is not connected
  afterwards. This is so for \<^verbatim>\<open>connect("99")\<close> with two sources.
\<close>

lemma connect_unresolved_int_index_fails:
  assumes "stoi deviceID' = Inr n" and "MIDIGetSource os (word_of_int n) = 0"
  shows "error_class (snd (snd (connect os st deviceID'))) = Some MidiFailedConnect
       \<and> \<not> isConnected (fst (connect os st deviceID'))"
proof (cases "client (m_core st) = 0 \<or> inputPort (m_core st) = 0")
  case True
  then show ?thesis
    by (simp add: connect_no_handle connect_start_facts)
next
  case False
  with assms show ?thesis
    by (simp add: connect_no_source isConnected_def)
qed

lemma connect_99_with_two_sources:
  "stoi ''99'' = Inr 99 \<and> MIDIGetSource keyboards (word_of_int 99) = 0
   \<and> isConnected port_on_B
   \<and> error_class (snd (snd (connect keyboards port_on_B ''99''))) = Some MidiFailedConnect
   \<and> \<not> isConnected (fst (connect keyboards port_on_B ''99''))"
proof -
  have src: "MIDIGetSource keyboards (word_of_int 99) = 0"
    by (simp add: keyboards_def os_with_sources_def)
  show ?thesis
    using connect_unresolved_int_index_fails [OF stoi_99 src, of port_on_B] stoi_99 src
      isConnected_port_on_B
    by simp
qed

text \<open>
  C5, on the code. With two sources the service has no source at index 99999999999, and
  yet \<^verbatim>\<open>connect("99999999999")\<close> returns no error of class \<^verbatim>\<open>MidiFailedConnect\<close>: the index
  is beyond the range of \<^verbatim>\<open>int\<close>, \<^verbatim>\<open>std::stoi\<close> throws \<^verbatim>\<open>std::out_of_range\<close> and \<^verbatim>\<open>connect\<close>
  does not catch it. The port, connected before the call, is not connected afterwards.
\<close>

theorem connect_unresolved_index_beyond_int_throws:
  "MIDIGetSource keyboards 99999999999 = 0
   \<and> isConnected port_on_B
   \<and> snd (snd (connect keyboards port_on_B ''99999999999'')) = Thrown out_of_range
   \<and> error_class (snd (snd (connect keyboards port_on_B ''99999999999''))) \<noteq> Some MidiFailedConnect
   \<and> \<not> isConnected (fst (connect keyboards port_on_B ''99999999999''))"
proof -
  have big: "stoi ''99999999999'' = Inl out_of_range"
    by code_simp
  have src: "MIDIGetSource keyboards 99999999999 = 0"
    by (simp add: keyboards_def os_with_sources_def)
  have handles: "client (m_core port_on_B) \<noteq> 0" "inputPort (m_core port_on_B) \<noteq> 0"
    by (simp_all add: port_on_B_def)
  show ?thesis
    by (simp add: src isConnected_port_on_B connect_throws [OF handles big]
        connect_start_facts)
qed

text \<open>
  C6. When a source is reported removed and it is the source the port is connected to,
  the callback first disconnects (the port is unbound from the source, and its source
  handle and device identifier are cleared) and only then fires the devices-changed
  notification, as the last thing it does: the port that the observers find at the
  notification is the disconnected one, for which \<^verbatim>\<open>isConnected\<close> is false. For every
  removal notification, the callback notifies at most once, as the last thing it does, and
  the port that the observers find is not connected to the removed object.
\<close>

theorem source_removed_disconnects_before_notifying:
  "(messageID notification = kMIDIMsgObjectRemoved
      \<and> messageSize notification = sizeof_MIDIObjectAddRemoveNotification
      \<and> childType notification = kMIDIObjectType_Source
      \<and> isConnected self \<and> child notification = sourceId (m_core self) \<longrightarrow>
        onCoreMidiNotificationReceived os self notification =
          (fst (disconnect os self),
           snd (disconnect os self) @ [devicesChanged_notify (fst (disconnect os self))])
        \<and> hd (snd (disconnect os self)) =
            Call_MIDIPortDisconnectSource (inputPort (m_core self)) (sourceId (m_core self))
        \<and> notified (snd (disconnect os self)) = []
        \<and> notified (snd (onCoreMidiNotificationReceived os self notification)) =
            [fst (disconnect os self)]
        \<and> \<not> isConnected (fst (disconnect os self)))
   \<and> (messageID notification = kMIDIMsgObjectRemoved \<longrightarrow>
        (\<forall>seen \<in> set (notified (snd (onCoreMidiNotificationReceived os self notification))).
            \<not> (isConnected seen \<and> sourceId (m_core seen) = child notification))
        \<and> (notified (snd (onCoreMidiNotificationReceived os self notification)) \<noteq> [] \<longrightarrow>
             (\<exists>before. snd (onCoreMidiNotificationReceived os self notification) =
                         before @ [devicesChanged_notify
                                     (fst (onCoreMidiNotificationReceived os self notification))]
                       \<and> notified before = [])
             \<and> \<not> (isConnected (fst (onCoreMidiNotificationReceived os self notification))
                    \<and> sourceId (m_core (fst (onCoreMidiNotificationReceived os self notification)))
                        = child notification)))"
proof (intro conjI impI)
  assume a: "messageID notification = kMIDIMsgObjectRemoved
      \<and> messageSize notification = sizeof_MIDIObjectAddRemoveNotification
      \<and> childType notification = kMIDIObjectType_Source
      \<and> isConnected self \<and> child notification = sourceId (m_core self)"
  then show run: "onCoreMidiNotificationReceived os self notification =
          (fst (disconnect os self),
           snd (disconnect os self) @ [devicesChanged_notify (fst (disconnect os self))])"
    by (simp add: onCoreMidiNotificationReceived_def onObjectAddedRemoved_def case_prod_beta)
  from a have connected: "isConnected self"
    by simp
  from connected show "hd (snd (disconnect os self)) =
            Call_MIDIPortDisconnectSource (inputPort (m_core self)) (sourceId (m_core self))"
    by (rule disconnect_connected)
  from connected show quiet: "notified (snd (disconnect os self)) = []"
    by (rule disconnect_connected)
  from run quiet show "notified (snd (onCoreMidiNotificationReceived os self notification)) =
            [fst (disconnect os self)]"
    by (simp add: notified_append)
  show "\<not> isConnected (fst (disconnect os self))"
    by (rule not_connected_after_disconnect)
next
  assume b: "messageID notification = kMIDIMsgObjectRemoved"
  show "\<forall>seen \<in> set (notified (snd (onCoreMidiNotificationReceived os self notification))).
            \<not> (isConnected seen \<and> sourceId (m_core seen) = child notification)"
  proof (cases "isConnected self \<and> child notification = sourceId (m_core self)")
    case True
    then have "notified (snd (disconnect os self)) = []"
      by (simp add: disconnect_connected stop_no_notify)
    with b True show ?thesis
      by (simp add: onCoreMidiNotificationReceived_def onObjectAddedRemoved_def case_prod_beta
          notified_append not_connected_after_disconnect)
  next
    case False
    with b show ?thesis
      by (auto simp: onCoreMidiNotificationReceived_def onObjectAddedRemoved_def)
  qed
next
  assume b: "messageID notification = kMIDIMsgObjectRemoved"
  assume c: "notified (snd (onCoreMidiNotificationReceived os self notification)) \<noteq> []"
  from b c have ok: "messageSize notification = sizeof_MIDIObjectAddRemoveNotification"
    "childType notification = kMIDIObjectType_Source"
    by (auto simp: onCoreMidiNotificationReceived_def onObjectAddedRemoved_def split: if_splits)
  show "\<exists>before. snd (onCoreMidiNotificationReceived os self notification) =
                    before @ [devicesChanged_notify
                                (fst (onCoreMidiNotificationReceived os self notification))]
                  \<and> notified before = []"
  proof (cases "isConnected self \<and> child notification = sourceId (m_core self)")
    case True
    then have "notified (snd (disconnect os self)) = []"
      by (simp add: disconnect_connected stop_no_notify)
    with b ok True show ?thesis
      by (simp add: onCoreMidiNotificationReceived_def onObjectAddedRemoved_def case_prod_beta)
  next
    case False
    with b ok show ?thesis
      by (auto simp: onCoreMidiNotificationReceived_def onObjectAddedRemoved_def)
  qed
  show "\<not> (isConnected (fst (onCoreMidiNotificationReceived os self notification))
               \<and> sourceId (m_core (fst (onCoreMidiNotificationReceived os self notification)))
                   = child notification)"
  proof (cases "isConnected self \<and> child notification = sourceId (m_core self)")
    case True
    with b ok show ?thesis
      by (simp add: onCoreMidiNotificationReceived_def onObjectAddedRemoved_def case_prod_beta
          not_connected_after_disconnect)
  next
    case False
    with b ok show ?thesis
      by (auto simp: onCoreMidiNotificationReceived_def onObjectAddedRemoved_def)
  qed
qed

theorem source_removed_disconnects_before_notifying_witness:
  "messageID removed_B = kMIDIMsgObjectRemoved
   \<and> messageSize removed_B = sizeof_MIDIObjectAddRemoveNotification
   \<and> childType removed_B = kMIDIObjectType_Source
   \<and> isConnected port_on_B \<and> child removed_B = sourceId (m_core port_on_B)
   \<and> onCoreMidiNotificationReceived keyboards port_on_B removed_B =
       (port_on_B\<lparr>m_core := (m_core port_on_B)\<lparr>sourceId := 0\<rparr>, m_deviceID := [], m_running := False\<rparr>,
        [Call_MIDIPortDisconnectSource 2 12,
         devicesChanged_notify
           (port_on_B\<lparr>m_core := (m_core port_on_B)\<lparr>sourceId := 0\<rparr>, m_deviceID := [],
                       m_running := False\<rparr>)])
   \<and> notified (snd (onCoreMidiNotificationReceived keyboards port_on_B removed_B)) =
       [port_on_B\<lparr>m_core := (m_core port_on_B)\<lparr>sourceId := 0\<rparr>, m_deviceID := [], m_running := False\<rparr>]
   \<and> \<not> isConnected
         (port_on_B\<lparr>m_core := (m_core port_on_B)\<lparr>sourceId := 0\<rparr>, m_deviceID := [], m_running := False\<rparr>)
   \<and> \<not> isConnected (fst (onCoreMidiNotificationReceived keyboards port_on_B removed_B))"
  using source_removed_disconnects_before_notifying [of removed_B port_on_B keyboards]
  by (simp add: removed_B_def port_on_B_def sizeof_MIDIObjectAddRemoveNotification_def
      isConnected_def disconnect_def stop_def keyboards_def os_with_sources_def noErr_def
      kMIDINoConnection_def)

text \<open>
  C7. On every port that was constructed and then driven by its methods and callbacks,
  \<^verbatim>\<open>stop\<close> returns with the running flag false. On a port that is not connected it logs one
  error and changes nothing. On a connected port it unbinds the port from the source and
  clears the flag; it logs an error exactly when the service answers something other than
  \<^verbatim>\<open>noErr\<close> and \<^verbatim>\<open>kMIDINoConnection\<close>.
\<close>

theorem stop_leaves_running_false:
  assumes "reachable st"
  shows "\<not> m_running (fst (stop os st))
       \<and> (\<not> isConnected st \<longrightarrow> stop os st = (st, [LOGE ''midi port is not connected'']))
       \<and> (isConnected st \<longrightarrow>
            fst (stop os st) = st\<lparr>m_running := False\<rparr>
            \<and> hd (snd (stop os st)) =
                Call_MIDIPortDisconnectSource (inputPort (m_core st)) (sourceId (m_core st))
            \<and> (errors_logged (snd (stop os st)) = []) =
                (MIDIPortDisconnectSource os (inputPort (m_core st)) (sourceId (m_core st))
                   \<in> {noErr, kMIDINoConnection}))"
proof (intro conjI impI)
  from assms have "connection_inv st"
    by (rule reachable_inv)
  then show "\<not> m_running (fst (stop os st))"
    by (auto simp: stop_fields connection_inv_def isConnected_def)
next
  assume "\<not> isConnected st"
  then show "stop os st = (st, [LOGE ''midi port is not connected''])"
    by (simp add: stop_def)
next
  assume "isConnected st"
  then show "fst (stop os st) = st\<lparr>m_running := False\<rparr>"
    by (simp add: stop_def Let_def)
next
  assume "isConnected st"
  then show "hd (snd (stop os st)) =
                Call_MIDIPortDisconnectSource (inputPort (m_core st)) (sourceId (m_core st))"
    by (simp add: stop_def Let_def)
next
  assume "isConnected st"
  then show "(errors_logged (snd (stop os st)) = []) =
                (MIDIPortDisconnectSource os (inputPort (m_core st)) (sourceId (m_core st))
                   \<in> {noErr, kMIDINoConnection})"
    by (auto simp: stop_def Let_def)
qed

theorem stop_leaves_running_false_witness:
  "reachable port_on_B \<and> isConnected port_on_B \<and> m_running port_on_B
   \<and> stop keyboards port_on_B =
       (port_on_B\<lparr>m_running := False\<rparr>, [Call_MIDIPortDisconnectSource 2 12])
   \<and> \<not> m_running (fst (stop keyboards port_on_B))"
proof -
  have "stop keyboards port_on_B =
       (port_on_B\<lparr>m_running := False\<rparr>, [Call_MIDIPortDisconnectSource 2 12])"
    by (simp add: stop_def isConnected_port_on_B keyboards_def os_with_sources_def noErr_def
        kMIDINoConnection_def)
       (simp add: port_on_B_def)
  then show ?thesis
    using stop_leaves_running_false [OF reachable_port_on_B, of keyboards]
      reachable_port_on_B isConnected_port_on_B
    by (simp add: port_on_B_def)
qed

text \<open>
  C8, on the code. On a port whose client and input port were created, \<^verbatim>\<open>connect("abc")\<close>
  does not return: \<^verbatim>\<open>std::stoi\<close> throws \<^verbatim>\<open>std::invalid_argument\<close>, which \<^verbatim>\<open>connect\<close> does not
  catch. With an identifier beyond the range of \<^verbatim>\<open>int\<close> it is \<^verbatim>\<open>std::out_of_range\<close>.
\<close>

theorem connect_throws_on_identifier_that_is_no_number:
  "snd (snd (connect keyboards port_ready ''abc'')) = Thrown invalid_argument
   \<and> snd (snd (connect keyboards port_ready [])) = Thrown invalid_argument
   \<and> snd (snd (connect keyboards port_ready ''99999999999'')) = Thrown out_of_range"
proof -
  have "stoi [] = Inl invalid_argument" and "stoi ''99999999999'' = Inl out_of_range"
    by code_simp+
  then show ?thesis
    by (simp add: connect_throws stoi_abc port_ready_def)
qed

text \<open>
  C9. The invariant of the connection (a running port has a source handle and a device
  identifier) holds after construction, is preserved by \<^verbatim>\<open>initCore\<close>, \<^verbatim>\<open>connect\<close>,
  \<^verbatim>\<open>disconnect\<close>, \<^verbatim>\<open>run\<close>, \<^verbatim>\<open>stop\<close> and the notification callback, whatever the service
  answers, and so holds in every state the port can reach.
\<close>

theorem connection_invariant_holds:
  "connection_inv CoreMidiInPort_new
   \<and> (connection_inv st \<longrightarrow>
        connection_inv (fst (initCore os st))
        \<and> connection_inv (fst (connect os st deviceID'))
        \<and> connection_inv (fst (disconnect os st))
        \<and> connection_inv (fst (run os st))
        \<and> connection_inv (fst (stop os st))
        \<and> connection_inv (fst (onCoreMidiNotificationReceived os st notification)))
   \<and> (reachable st \<longrightarrow> connection_inv st)"
  by (simp add: connection_inv_new initCore_inv connect_inv disconnect_inv run_inv stop_inv
      notification_inv reachable_inv)

theorem connection_invariant_holds_witness:
  "reachable port_on_B \<and> connection_inv port_on_B \<and> m_running port_on_B
   \<and> sourceId (m_core port_on_B) \<noteq> 0 \<and> m_deviceID port_on_B \<noteq> []
   \<and> connection_inv (fst (connect keyboards_no_bind port_on_B ''0''))
   \<and> connection_inv (fst (disconnect keyboards port_on_B))
   \<and> connection_inv (fst (onCoreMidiNotificationReceived keyboards port_on_B removed_B))"
proof -
  have start: "connection_inv port_on_B"
    by (simp add: connection_inv_def port_on_B_def)
  show ?thesis
    using connection_invariant_holds
      [of port_on_B keyboards_no_bind "''0''" removed_B]
      connection_invariant_holds [of port_on_B keyboards "''0''" removed_B] start
      reachable_port_on_B
    by (simp add: port_on_B_def)
qed

text \<open>
  C10, as the code has it. When \<^verbatim>\<open>connect\<close> is called on a connected port and returns an
  error, the port has been unbound from the old source first, it is not running, and the
  old connection is not restored. If the new source could not be resolved (or a handle is
  missing) the port is left not connected. If the new source was resolved and only the
  bind failed, the port keeps the new source and the new identifier, so
  \<^verbatim>\<open>isConnected\<close> is true.
\<close>

theorem failed_reconnect_leaves_old_connection_dropped:
  assumes "isConnected st" and "error_class (snd (snd (connect os st deviceID'))) \<noteq> None"
  shows "\<not> m_running (fst (connect os st deviceID'))
       \<and> hd (fst (snd (connect os st deviceID'))) =
           Call_MIDIPortDisconnectSource (inputPort (m_core st)) (sourceId (m_core st))
       \<and> isConnected (fst (connect os st deviceID')) =
           (client (m_core st) \<noteq> 0 \<and> inputPort (m_core st) \<noteq> 0
            \<and> (\<exists>n. stoi deviceID' = Inr n \<and> MIDIGetSource os (word_of_int n) \<noteq> 0))
       \<and> (isConnected (fst (connect os st deviceID')) \<longrightarrow>
            m_deviceID (fst (connect os st deviceID')) = deviceID'
            \<and> (\<exists>n. stoi deviceID' = Inr n
                   \<and> sourceId (m_core (fst (connect os st deviceID')))
                       = MIDIGetSource os (word_of_int n)
                   \<and> MIDIPortConnectSource os (inputPort (m_core st))
                       (MIDIGetSource os (word_of_int n)) \<noteq> noErr))"
proof -
  from assms(1) have start: "connect_start os st = disconnect os st"
    by (simp add: connect_start_def)
  note dis = disconnect_connected [OF assms(1), of os]
  have first: "hd (snd (disconnect os st) @ more) =
      Call_MIDIPortDisconnectSource (inputPort (m_core st)) (sourceId (m_core st))" for more
    using assms(1) by (simp add: disconnect_def stop_def Let_def)
  show ?thesis
  proof (cases "client (m_core st) = 0 \<or> inputPort (m_core st) = 0")
    case True
    then show ?thesis
      using first [of "[]"] by (auto simp: connect_no_handle start dis(1) isConnected_def)
  next
    case False
    show ?thesis
    proof (cases "stoi deviceID'")
      case (Inl x)
      with False assms(2) show ?thesis
        by (simp add: connect_throws)
    next
      case (Inr n)
      show ?thesis
      proof (cases "MIDIGetSource os (word_of_int n) = 0")
        case True
        with False Inr show ?thesis
          using first by (simp add: connect_no_source start dis(1) isConnected_def)
      next
        case resolved: False
        from Inr have "deviceID' \<noteq> []"
          by (auto simp: stoi_def Let_def)
        with False Inr resolved assms(2) show ?thesis
          using first by (simp add: connect_binds start dis(1) isConnected_def split: if_splits)
      qed
    qed
  qed
qed

theorem failed_reconnect_leaves_old_connection_dropped_witness:
  "isConnected port_on_B
   \<and> error_class (snd (snd (connect keyboards port_on_B ''99''))) \<noteq> None
   \<and> \<not> m_running (fst (connect keyboards port_on_B ''99''))
   \<and> \<not> isConnected (fst (connect keyboards port_on_B ''99''))
   \<and> hd (fst (snd (connect keyboards port_on_B ''99''))) = Call_MIDIPortDisconnectSource 2 12"
proof -
  have src: "MIDIGetSource keyboards (word_of_int 99) = 0"
    by (simp add: keyboards_def os_with_sources_def)
  have handles: "client (m_core port_on_B) \<noteq> 0" "inputPort (m_core port_on_B) \<noteq> 0"
    by (simp_all add: port_on_B_def)
  have failed: "error_class (snd (snd (connect keyboards port_on_B ''99''))) \<noteq> None"
    by (simp add: connect_no_source [OF handles stoi_99 src])
  show ?thesis
    using failed_reconnect_leaves_old_connection_dropped [OF isConnected_port_on_B failed]
      isConnected_port_on_B failed stoi_99 src
    by (simp add: port_on_B_def)
qed

text \<open>
  C10 as stated fails: the port is connected to the second keyboard, \<^verbatim>\<open>connect("0")\<close>
  resolves the first keyboard, the bind is refused, \<^verbatim>\<open>connect\<close> returns an error, and
  \<^verbatim>\<open>isConnected\<close> is true afterwards.
\<close>

theorem failed_bind_leaves_port_connected:
  "isConnected port_on_B
   \<and> snd (snd (connect keyboards_no_bind port_on_B ''0'')) = Returned (make_ret MidiFailedConnect None)
   \<and> fst (connect keyboards_no_bind port_on_B ''0'') =
       \<lparr> m_core = \<lparr> client = 1, inputPort = 2, sourceId = 11, deviceID = 0 \<rparr>,
         m_deviceID = ''0'', m_running = False \<rparr>
   \<and> isConnected (fst (connect keyboards_no_bind port_on_B ''0''))"
  by (simp add: connect_def disconnect_def stop_def run_def isConnected_def stoi_0 port_on_B_def
      keyboards_no_bind_def keyboards_def os_with_sources_def noErr_def kMIDINoConnection_def
      Let_def)

subsection \<open>Enumerating the devices\<close>

lemma source_queries_append:
  "source_queries (xs @ ys) = source_queries xs @ source_queries ys"
  by (induction xs rule: source_queries.induct) simp_all

lemma devices_source_queries:
  "source_queries (snd (devices_source os sourceIndex s)) = source_queries (snd s) @ [sourceIndex]"
  by (simp add: devices_source_def case_prod_beta Let_def source_queries_append)

lemma devices_loop_ends:
  assumes "sources \<noteq> - 1" and "unat sourceIndex \<le> unat sources + 1"
  shows "\<exists>r. devices_loop os sources sourceIndex s = Some r
            \<and> source_queries (snd r) =
                source_queries (snd s) @ map word_of_nat [unat sourceIndex ..< unat sources + 1]"
  using assms(2)
proof (induction "unat sources + 1 - unat sourceIndex" arbitrary: sourceIndex s)
  case 0
  then have "unat sourceIndex = unat sources + 1"
    by simp
  then have "\<not> sourceIndex \<le> sources"
    by (simp add: word_le_nat_alt)
  then have "devices_loop os sources sourceIndex s = Some s"
    by (subst devices_loop.simps) simp
  with 0 show ?case
    by simp
next
  case (Suc k)
  then have below: "unat sourceIndex \<le> unat sources"
    by simp
  then have le: "sourceIndex \<le> sources"
    by (simp add: word_le_nat_alt)
  from assms(1) have "unat sources \<noteq> unat (- 1 :: 64 word)"
    by (simp only: word_unat_eq_iff [symmetric] not_False_eq_True)
  moreover have "unat sources < 2 ^ 64"
    using unsigned_less [of sources] by simp
  ultimately have "unat sources < 2 ^ 64 - 1"
    by (simp add: unsigned_minus_1_eq_mask mask_eq_exp_minus_1)
  with below have "unat sourceIndex + 1 < 2 ^ 64"
    by simp
  then have next_index: "unat (sourceIndex + 1) = unat sourceIndex + 1"
    by (simp add: unat_add_lem [THEN iffD1])
  from Suc.hyps(2) next_index have k: "k = unat sources + 1 - unat (sourceIndex + 1)"
    by simp
  from below next_index have bound: "unat (sourceIndex + 1) \<le> unat sources + 1"
    by simp
  from Suc.hyps(1) [OF k bound, of "devices_source os sourceIndex s"]
  obtain r where r: "devices_loop os sources (sourceIndex + 1) (devices_source os sourceIndex s) = Some r"
    and q: "source_queries (snd r) =
              source_queries (snd (devices_source os sourceIndex s))
                @ map word_of_nat [unat (sourceIndex + 1) ..< unat sources + 1]"
    by blast
  from le r have "devices_loop os sources sourceIndex s = Some r"
    by (subst devices_loop.simps) simp
  moreover from below have "[unat sourceIndex ..< unat sources + 1] =
      unat sourceIndex # [unat sourceIndex + 1 ..< unat sources + 1]"
    by (simp add: upt_conv_Cons)
  then have "source_queries (snd r) =
      source_queries (snd s) @ map word_of_nat [unat sourceIndex ..< unat sources + 1]"
    using q by (simp add: devices_source_queries next_index)
  ultimately show ?case
    by simp
qed

text \<open>
  C4. \<^verbatim>\<open>devices\<close> asks the service for the source at every index from 0 up to and
  including the number of sources: one query more than there are sources. (It returns
  whenever the number of sources is below the largest \<^verbatim>\<open>ItemCount\<close>.)
\<close>

theorem devices_queries_count_plus_one_indices:
  assumes "MIDIGetNumberOfSources os \<noteq> - 1"
  shows "\<exists>ret done. devices os = Some (ret, done)
           \<and> source_queries done = map word_of_nat [0 ..< unat (MIDIGetNumberOfSources os) + 1]
           \<and> length (source_queries done) = unat (MIDIGetNumberOfSources os) + 1
           \<and> last (source_queries done) = MIDIGetNumberOfSources os"
proof -
  from devices_loop_ends [OF assms, of 0 os "([], [])"]
  obtain r where r: "devices os = Some r"
    and q: "source_queries (snd r) = map word_of_nat [0 ..< unat (MIDIGetNumberOfSources os) + 1]"
    by (auto simp: devices_def)
  from q have "last (source_queries (snd r)) = MIDIGetNumberOfSources os"
    by (simp add: last_map del: upt_Suc)
  with r q show ?thesis
    by (cases r) simp
qed

theorem devices_queries_count_plus_one_indices_witness:
  "MIDIGetNumberOfSources keyboards = 2 \<and> MIDIGetNumberOfSources keyboards \<noteq> - 1
   \<and> devices keyboards =
       Some ([\<lparr>dev_id = ''0'', dev_name = ''Keyboard A''\<rparr>, \<lparr>dev_id = ''1'', dev_name = ''Keyboard B''\<rparr>],
             [Call_MIDIGetSource 0, Call_MIDIObjectGetStringProperty 11,
              Call_MIDIGetSource 1, Call_MIDIObjectGetStringProperty 12,
              Call_MIDIGetSource 2])
   \<and> (\<exists>ret done. devices keyboards = Some (ret, done) \<and> source_queries done = [0, 1, 2])"
proof -
  have count: "MIDIGetNumberOfSources keyboards = 2"
    by (simp add: keyboards_def os_with_sources_def)
  then have finite_count: "MIDIGetNumberOfSources keyboards \<noteq> - 1"
    by simp
  have run: "devices keyboards =
       Some ([\<lparr>dev_id = ''0'', dev_name = ''Keyboard A''\<rparr>, \<lparr>dev_id = ''1'', dev_name = ''Keyboard B''\<rparr>],
             [Call_MIDIGetSource 0, Call_MIDIObjectGetStringProperty 11,
              Call_MIDIGetSource 1, Call_MIDIObjectGetStringProperty 12,
              Call_MIDIGetSource 2])"
    by code_simp
  show ?thesis
    using devices_queries_count_plus_one_indices [OF finite_count] count finite_count run
    by simp
qed

end
